theory Spec2Isabelle
  imports Complex_Main
begin

section \<open>The physical button bridge (raspberry\_pi\_buttons.py)\<close>

text \<open>
  The script configures two GPIO inputs, filters their rising edges through one shared
  debounce timestamp, reports every accepted press with one HTTP POST, checks the
  collaborator's health once at startup and then idles until it is interrupted.

  Everything the script does to the outside world (printing, HTTP requests, GPIO calls,
  sleeping) is recorded, in program order, in a list of effects that each operation takes
  and returns extended. Everything the outside world decides (what a clock reading is, how
  an HTTP request ends, whether a GPIO call or a sleep raises) is an argument of the
  operation that asks for it.

  A clock reading (\<open>time.time()\<close>, seconds since the epoch) is modelled by its
  exact value, a rational, the literal \<open>0.3\<close> by \<open>3/10\<close> and the subtraction
  by the exact one; the rounding of binary floating point is not part of the model.
\<close>

subsection \<open>Constants\<close>

definition BUTTON_1_PIN :: nat where
  "BUTTON_1_PIN = 18"

definition BUTTON_2_PIN :: nat where
  "BUTTON_2_PIN = 19"

definition FLASK_APP_URL :: string where
  "FLASK_APP_URL = ''http://144.178.100.238:65500''"

subsection \<open>Exceptions, HTTP outcomes, effects\<close>

text \<open>
  \<open>RequestException m\<close> is any instance of \<open>requests.exceptions.RequestException\<close>
  or of a subclass (timeout, refused connection, DNS failure), \<open>m\<close> being its
  \<open>str\<close>. \<open>KeyboardInterrupt\<close> derives from \<open>BaseException\<close> only.
  \<open>OtherException m\<close> is any other exception.
\<close>

datatype exn = RequestException string | KeyboardInterrupt | OtherException string

text \<open>How \<open>requests.get\<close> or \<open>requests.post\<close> ends: a response with its status
  code, or an exception.\<close>

datatype http_outcome = Response int | Raises exn

datatype json = JInt int | JFloat rat

datatype gpio_call =
    Setmode_BCM
  | Setwarnings bool
  | Setup_IN_PUD_DOWN nat
  | Add_event_detect_RISING nat nat nat
  | Cleanup

text \<open>
  \<open>Add_event_detect_RISING p k b\<close> registers \<open>button_k_callback\<close> on pin \<open>p\<close>
  with bounce time \<open>b\<close>. \<open>Http_post url body timeout\<close> and
  \<open>Http_get url timeout\<close> are the two requests; the body is the dictionary passed as
  \<open>json=\<close>, in insertion order.
\<close>

datatype effect =
    Print string
  | Http_post string "(string \<times> json) list" int
  | Http_get string int
  | Sleep rat
  | Gpio gpio_call

type_synonym trace = "effect list"

subsection \<open>Formatting integers in f-strings\<close>

definition digit_char :: "nat \<Rightarrow> char" where
  "digit_char d = char_of (48 + d)"

fun str_nat :: "nat \<Rightarrow> string" where
  "str_nat n = (if n < 10 then [digit_char n] else str_nat (n div 10) @ [digit_char (n mod 10)])"

definition str_int :: "int \<Rightarrow> string" where
  "str_int i = (if i < 0 then CHR ''-'' # str_nat (nat (- i)) else str_nat (nat i))"

subsection \<open>The controller object\<close>

record controller =
  button_pressed :: bool
  last_press_time :: rat
  debounce_time :: rat

text \<open>A GPIO call is recorded and then raises what the hardware layer says it raises.\<close>

definition gpio_do :: "(gpio_call \<Rightarrow> exn option) \<Rightarrow> gpio_call \<Rightarrow> trace \<Rightarrow> exn option \<times> trace" where
  "gpio_do gpio c tr = (gpio c, tr @ [Gpio c])"

text \<open>Statement sequencing: an exception skips the rest.\<close>

definition and_then ::
  "(trace \<Rightarrow> exn option \<times> trace) \<Rightarrow> (trace \<Rightarrow> exn option \<times> trace) \<Rightarrow> trace \<Rightarrow> exn option \<times> trace" where
  "and_then f g tr = (case f tr of (Some e, tr') \<Rightarrow> (Some e, tr') | (None, tr') \<Rightarrow> g tr')"

definition setup_calls :: "gpio_call list" where
  "setup_calls =
     [Setmode_BCM,
      Setwarnings False,
      Setup_IN_PUD_DOWN BUTTON_1_PIN,
      Setup_IN_PUD_DOWN BUTTON_2_PIN,
      Add_event_detect_RISING BUTTON_1_PIN 1 300,
      Add_event_detect_RISING BUTTON_2_PIN 2 300]"

definition setup_gpio :: "(gpio_call \<Rightarrow> exn option) \<Rightarrow> trace \<Rightarrow> exn option \<times> trace" where
  "setup_gpio gpio =
     and_then (gpio_do gpio Setmode_BCM)
    (and_then (gpio_do gpio (Setwarnings False))
    (and_then (gpio_do gpio (Setup_IN_PUD_DOWN BUTTON_1_PIN))
    (and_then (gpio_do gpio (Setup_IN_PUD_DOWN BUTTON_2_PIN))
    (and_then (gpio_do gpio (Add_event_detect_RISING BUTTON_1_PIN 1 300))
    (and_then (gpio_do gpio (Add_event_detect_RISING BUTTON_2_PIN 2 300))
      (\<lambda>tr. (None, tr @ [Print ''GPIO configured. Button 1: GPIO 18, Button 2: GPIO 19''])))))))"

text \<open>\<open>__init__\<close>: when \<open>setup_gpio\<close> raises, no object is constructed.\<close>

definition init :: "(gpio_call \<Rightarrow> exn option) \<Rightarrow> trace \<Rightarrow> (exn + controller) \<times> trace" where
  "init gpio tr =
     (case setup_gpio gpio tr of
        (Some e, tr') \<Rightarrow> (Inl e, tr')
      | (None, tr') \<Rightarrow>
          (Inr \<lparr>button_pressed = False, last_press_time = 0, debounce_time = 3 / 10\<rparr>, tr'))"

subsection \<open>Emission\<close>

text \<open>
  \<open>send_button_press button_number ts reply\<close>: \<open>ts\<close> is the clock reading taken
  for the body, \<open>reply\<close> is how the POST ends. Only a \<open>RequestException\<close> is
  handled; any other exception leaves the function.
\<close>

definition send_button_press :: "int \<Rightarrow> rat \<Rightarrow> http_outcome \<Rightarrow> trace \<Rightarrow> exn option \<times> trace" where
  "send_button_press button_number ts reply tr =
     (let url = FLASK_APP_URL @ ''/physical-button-press'';
          data = [(''button'', JInt button_number), (''timestamp'', JFloat ts)];
          tr1 = tr @ [Http_post url data 5]
      in case reply of
           Response status_code \<Rightarrow>
             if status_code = 200
             then (None, tr1 @ [Print (''Button '' @ str_int button_number @ '' signal sent successfully'')])
             else (None, tr1 @ [Print (''Send error: Status '' @ str_int status_code)])
         | Raises (RequestException m) \<Rightarrow> (None, tr1 @ [Print (''Connection error: '' @ m)])
         | Raises e \<Rightarrow> (Some e, tr1))"

subsection \<open>Edge callbacks\<close>

text \<open>
  \<open>current_time\<close> is the clock reading taken on entry. The assignment to
  \<open>last_press_time\<close> precedes the call of \<open>send_button_press\<close>, so it stays
  when that call raises.
\<close>

definition button_1_callback ::
  "nat \<Rightarrow> rat \<Rightarrow> rat \<Rightarrow> http_outcome \<Rightarrow> controller \<times> trace \<Rightarrow> exn option \<times> controller \<times> trace" where
  "button_1_callback channel current_time ts reply st =
     (case st of (self, tr) \<Rightarrow>
        if current_time - last_press_time self > debounce_time self
        then (let self' = self\<lparr>last_press_time := current_time\<rparr>;
                  tr' = tr @ [Print ''Button 1 pressed - Choose Variant 1''];
                  r = send_button_press 1 ts reply tr'
              in (fst r, self', snd r))
        else (None, self, tr))"

definition button_2_callback ::
  "nat \<Rightarrow> rat \<Rightarrow> rat \<Rightarrow> http_outcome \<Rightarrow> controller \<times> trace \<Rightarrow> exn option \<times> controller \<times> trace" where
  "button_2_callback channel current_time ts reply st =
     (case st of (self, tr) \<Rightarrow>
        if current_time - last_press_time self > debounce_time self
        then (let self' = self\<lparr>last_press_time := current_time\<rparr>;
                  tr' = tr @ [Print ''Button 2 pressed - Choose Variant 2''];
                  r = send_button_press 2 ts reply tr'
              in (fst r, self', snd r))
        else (None, self, tr))"

text \<open>
  A rising edge as the hardware layer delivers it: the button it comes from, the clock
  reading its callback takes on entry (\<open>now\<close>), the clock reading taken for the
  body if the press is sent (\<open>stamp\<close>), and how the POST ends if one is made.
\<close>

datatype button = Button_1 | Button_2

record edge =
  source :: button
  now :: rat
  stamp :: rat
  reply :: http_outcome

text \<open>The dispatch that \<open>add_event_detect\<close> sets up: pin 18 to callback 1, pin 19 to
  callback 2, the pin number being the callback's argument.\<close>

definition fire :: "edge \<Rightarrow> controller \<times> trace \<Rightarrow> exn option \<times> controller \<times> trace" where
  "fire e st =
     (case source e of
        Button_1 \<Rightarrow> button_1_callback BUTTON_1_PIN (now e) (stamp e) (reply e) st
      | Button_2 \<Rightarrow> button_2_callback BUTTON_2_PIN (now e) (stamp e) (reply e) st)"

text \<open>Edges delivered one after the other; an exception that leaves a callback does not
  undo what the callback did before, and the next edge is delivered all the same.\<close>

fun run_edges :: "edge list \<Rightarrow> controller \<times> trace \<Rightarrow> controller \<times> trace" where
  "run_edges [] st = st"
| "run_edges (e # es) st = run_edges es (snd (fire e st))"

text \<open>The controller as \<open>__init__\<close> leaves it.\<close>

definition fresh :: controller where
  "fresh = \<lparr>button_pressed = False, last_press_time = 0, debounce_time = 3 / 10\<rparr>"

fun is_post :: "effect \<Rightarrow> bool" where
  "is_post (Http_post url body t) = True"
| "is_post x = False"

definition posts :: "trace \<Rightarrow> trace" where
  "posts tr = filter is_post tr"

text \<open>The body of the POST a press on a button sends.\<close>

definition button_id :: "button \<Rightarrow> int" where
  "button_id b = (case b of Button_1 \<Rightarrow> 1 | Button_2 \<Rightarrow> 2)"

definition press_post :: "int \<Rightarrow> rat \<Rightarrow> effect" where
  "press_post n ts =
     Http_post (FLASK_APP_URL @ ''/physical-button-press'')
       [(''button'', JInt n), (''timestamp'', JFloat ts)] 5"

subsection \<open>Health check, idle loop, lifecycle\<close>

text \<open>
  \<open>check_connection\<close>: the handler is a bare \<open>except:\<close>, so every exception of
  the GET, of whatever class, ends in the two lines of the handler. The three glyphs of
  the messages are given by their UTF-8 bytes.
\<close>

definition check_mark :: string where
  "check_mark = [CHR 0xE2, CHR 0x9C, CHR 0x93]"

definition warning_sign :: string where
  "warning_sign = [CHR 0xE2, CHR 0x9A, CHR 0xA0]"

definition ballot_x :: string where
  "ballot_x = [CHR 0xE2, CHR 0x9C, CHR 0x97]"

definition check_connection :: "http_outcome \<Rightarrow> trace \<Rightarrow> exn option \<times> trace" where
  "check_connection health tr =
     (let tr1 = tr @ [Http_get (FLASK_APP_URL @ ''/health'') 5]
      in case health of
           Response status_code \<Rightarrow>
             if status_code = 200
             then (None, tr1 @ [Print (check_mark @ '' Connection with Flask app established'')])
             else (None, tr1 @ [Print (warning_sign @ '' Flask app reachable but with issues'')])
         | Raises e \<Rightarrow>
             (None, tr1 @ [Print (ballot_x @ '' Unable to connect to Flask app''),
                           Print (''Verify that the app is running on '' @ FLASK_APP_URL)]))"

definition cleanup :: "(gpio_call \<Rightarrow> exn option) \<Rightarrow> trace \<Rightarrow> exn option \<times> trace" where
  "cleanup gpio tr = gpio_do gpio Cleanup tr"

text \<open>
  \<open>while True: time.sleep(0.1)\<close>. \<open>sleep i\<close> says whether the \<open>i\<close>-th sleep
  raises (a signal arriving during it) or returns. The loop has no exit of its own: when
  no sleep ever raises it does not return, which is the value \<open>None\<close>.
\<close>

partial_function (option) idle_loop :: "(nat \<Rightarrow> exn option) \<Rightarrow> nat \<Rightarrow> trace \<Rightarrow> (exn \<times> trace) option" where
  "idle_loop sleep i tr =
     (case sleep i of
        Some e \<Rightarrow> Some (e, tr @ [Sleep (1 / 10)])
      | None \<Rightarrow> idle_loop sleep (Suc i) (tr @ [Sleep (1 / 10)]))"

text \<open>The \<open>except KeyboardInterrupt\<close> and \<open>finally\<close> clauses of \<open>run\<close>, entered
  with the exception \<open>e\<close> that left the guarded block. An exception raised by the
  \<open>finally\<close> clause replaces the one in flight.\<close>

definition run_handlers :: "(gpio_call \<Rightarrow> exn option) \<Rightarrow> exn \<Rightarrow> trace \<Rightarrow> exn option \<times> trace" where
  "run_handlers gpio e tr =
     (if e = KeyboardInterrupt
      then cleanup gpio (tr @ [Print (CHR 0x0A # ''Shutting down...'')])
      else (case cleanup gpio tr of
              (Some e', tr') \<Rightarrow> (Some e', tr')
            | (None, tr') \<Rightarrow> (Some e, tr')))"

definition run ::
  "http_outcome \<Rightarrow> (nat \<Rightarrow> exn option) \<Rightarrow> (gpio_call \<Rightarrow> exn option) \<Rightarrow> trace \<Rightarrow> (exn option \<times> trace) option" where
  "run health sleep gpio tr =
     (let tr1 = tr @ [Print ''Physical button controller started...'',
                      Print (''Connecting to: '' @ FLASK_APP_URL),
                      Print ''Press Ctrl+C to terminate'']
      in case check_connection health tr1 of
           (Some e, tr2) \<Rightarrow> Some (run_handlers gpio e tr2)
         | (None, tr2) \<Rightarrow>
             (case idle_loop sleep 0 tr2 of
                None \<Rightarrow> None
              | Some (e, tr3) \<Rightarrow> Some (run_handlers gpio e tr3)))"

text \<open>The \<open>__main__\<close> block: construct the controller, then run it.\<close>

definition main ::
  "(gpio_call \<Rightarrow> exn option) \<Rightarrow> http_outcome \<Rightarrow> (nat \<Rightarrow> exn option) \<Rightarrow> trace \<Rightarrow> (exn option \<times> trace) option" where
  "main gpio health sleep tr =
     (case init gpio tr of
        (Inl e, tr') \<Rightarrow> Some (Some e, tr')
      | (Inr controller, tr') \<Rightarrow> run health sleep gpio tr')"

subsection \<open>Notions the properties are stated with\<close>

text \<open>The POST that an accepted edge sends.\<close>

definition post_of :: "edge \<Rightarrow> effect" where
  "post_of e = press_post (button_id (source e)) (stamp e)"

text \<open>An edge emits in a state when its callback adds a POST to the trace.\<close>

definition emits :: "edge \<Rightarrow> controller \<times> trace \<Rightarrow> bool" where
  "emits e st = (posts (snd (snd (fire e st))) \<noteq> posts (snd st))"

text \<open>
  The debounce policy in the specification's words: with \<open>l\<close> the time of the last
  accepted press (or the sentinel), an edge is accepted when its time exceeds \<open>l\<close>
  by more than 300 ms, and then becomes the last accepted press; otherwise it is
  discarded. \<open>spec_accepted l es\<close> lists the accepted edges of \<open>es\<close>, and
  \<open>last_accepted l es\<close> is the time of the most recently accepted one.
\<close>

fun spec_accepted :: "rat \<Rightarrow> edge list \<Rightarrow> edge list" where
  "spec_accepted l [] = []"
| "spec_accepted l (e # es) =
     (if now e - l > 3 / 10 then e # spec_accepted (now e) es else spec_accepted l es)"

definition last_accepted :: "rat \<Rightarrow> edge list \<Rightarrow> rat" where
  "last_accepted l es = (if spec_accepted l es = [] then l else now (last (spec_accepted l es)))"

text \<open>The \<open>timestamp\<close> fields of the POST bodies of a trace, in order.\<close>

fun body_timestamp :: "effect \<Rightarrow> rat option" where
  "body_timestamp (Http_post url body t) =
     (case map_of body ''timestamp'' of Some (JFloat ts) \<Rightarrow> Some ts | _ \<Rightarrow> None)"
| "body_timestamp x = None"

definition timestamps :: "trace \<Rightarrow> rat list" where
  "timestamps tr = List.map_filter body_timestamp tr"

text \<open>
  A clock reading is a binary floating-point number, so its value is a binary fraction:
  an integer multiple of \<open>2\<^sup>-\<^sup>k\<close> for some \<open>k\<close> (\<open>k = 1074\<close> serves
  every double).
\<close>

definition binary_fraction :: "nat \<Rightarrow> rat \<Rightarrow> bool" where
  "binary_fraction k r = (of_int \<lfloor>r * 2 ^ k\<rfloor> = r * 2 ^ k)"

text \<open>How often a trace holds a given effect.\<close>

definition occurrences :: "effect \<Rightarrow> trace \<Rightarrow> nat" where
  "occurrences x tr = length (filter (\<lambda>y. y = x) tr)"

text \<open>The GET requests of a trace.\<close>

fun is_get :: "effect \<Rightarrow> bool" where
  "is_get (Http_get url t) = True"
| "is_get x = False"

definition gets :: "trace \<Rightarrow> trace" where
  "gets tr = filter is_get tr"

section \<open>Properties\<close>

subsection \<open>Shared facts\<close>

lemma str_int_1: "str_int 1 = ''1''"
  by code_simp

lemma str_int_2: "str_int 2 = ''2''"
  by code_simp

lemma send_button_press_posts:
  "posts (snd (send_button_press n ts r tr)) = posts tr @ [press_post n ts]"
  by (simp add: send_button_press_def posts_def press_post_def Let_def split: http_outcome.split exn.split)

lemma fire_accept:
  "now e - last_press_time self > debounce_time self \<Longrightarrow>
   fst (snd (fire e (self, tr))) = self\<lparr>last_press_time := now e\<rparr> \<and>
   posts (snd (snd (fire e (self, tr)))) = posts tr @ [press_post (button_id (source e)) (stamp e)]"
  by (cases "source e")
     (simp_all add: fire_def button_1_callback_def button_2_callback_def button_id_def
        send_button_press_posts Let_def, simp_all add: posts_def)

lemma fire_suppress:
  "\<not> now e - last_press_time self > debounce_time self \<Longrightarrow> fire e (self, tr) = (None, self, tr)"
  by (cases "source e") (simp_all add: fire_def button_1_callback_def button_2_callback_def)

lemma idle_loop_raises:
  "sleep (i + k) = Some e \<Longrightarrow> \<forall>j<k. sleep (i + j) = None \<Longrightarrow>
   idle_loop sleep i tr = Some (e, tr @ replicate (Suc k) (Sleep (1 / 10)))"
proof (induction k arbitrary: i tr)
  case 0
  then show ?case by (subst idle_loop.simps) simp
next
  case (Suc k)
  have s0: "sleep i = None" using Suc.prems(2) [rule_format, of 0] by simp
  have a: "sleep (Suc i + k) = Some e" using Suc.prems(1) by simp
  have b: "\<forall>j<k. sleep (Suc i + j) = None"
  proof (intro allI impI)
    fix j assume "j < k"
    then show "sleep (Suc i + j) = None" using Suc.prems(2) [rule_format, of "Suc j"] by simp
  qed
  show ?case
    by (subst idle_loop.simps) (simp add: s0 Suc.IH [OF a b] replicate_append_same)
qed


lemma idle_loop_Some_raises:
  "idle_loop sleep i tr = Some y \<Longrightarrow> \<exists>j. sleep j \<noteq> None"
  by (rule idle_loop.raw_induct [where P = "\<lambda>sleep i tr y. \<exists>j. sleep j \<noteq> None"])
     (auto split: option.splits)

lemma idle_loop_forever:
  "\<forall>j. sleep j = None \<Longrightarrow> idle_loop sleep i tr = None"
  using idle_loop_Some_raises [of sleep i tr] by (cases "idle_loop sleep i tr") auto

lemma fire_debounce_time: "debounce_time (fst (snd (fire e st))) = debounce_time (fst st)"
  by (cases st; cases "source e")
     (simp_all add: fire_def button_1_callback_def button_2_callback_def Let_def)

lemma run_edges_debounce_time: "debounce_time (fst (run_edges es st)) = debounce_time (fst st)"
  by (induction es arbitrary: st) (simp_all add: fire_debounce_time)

lemma run_edges_append: "run_edges (xs @ ys) st = run_edges ys (run_edges xs st)"
  by (induction xs arbitrary: st) simp_all

lemma fire_last_press_time:
  "last_press_time (fst (snd (fire e (self, tr)))) =
     (if now e - last_press_time self > debounce_time self then now e else last_press_time self)"
  by (simp add: fire_accept fire_suppress)

lemma fire_posts:
  "posts (snd (snd (fire e (self, tr)))) =
     (if now e - last_press_time self > debounce_time self then posts tr @ [post_of e] else posts tr)"
  by (simp add: fire_accept fire_suppress post_of_def)

lemma run_edges_last_accepted:
  "debounce_time self = 3 / 10 \<Longrightarrow>
   last_press_time (fst (run_edges es (self, tr))) = last_accepted (last_press_time self) es"
proof (induction es arbitrary: self tr)
  case Nil
  then show ?case by (simp add: last_accepted_def)
next
  case (Cons e es)
  obtain r self' tr' where f: "fire e (self, tr) = (r, self', tr')" by (cases "fire e (self, tr)")
  have d: "debounce_time self' = 3 / 10"
    using fire_debounce_time [of e "(self, tr)"] f Cons.prems by simp
  have l: "last_press_time self' = (if now e - last_press_time self > 3 / 10 then now e else last_press_time self)"
    using fire_last_press_time [of e self tr] f Cons.prems by simp
  show ?case
    using Cons.IH [OF d, of tr'] f l by (simp add: last_accepted_def)
qed

lemma run_edges_posts:
  "debounce_time self = 3 / 10 \<Longrightarrow>
   posts (snd (run_edges es (self, tr))) = posts tr @ map post_of (spec_accepted (last_press_time self) es)"
proof (induction es arbitrary: self tr)
  case Nil
  then show ?case by simp
next
  case (Cons e es)
  obtain r self' tr' where f: "fire e (self, tr) = (r, self', tr')" by (cases "fire e (self, tr)")
  have d: "debounce_time self' = 3 / 10"
    using fire_debounce_time [of e "(self, tr)"] f Cons.prems by simp
  have l: "last_press_time self' = (if now e - last_press_time self > 3 / 10 then now e else last_press_time self)"
    using fire_last_press_time [of e self tr] f Cons.prems by simp
  have p: "posts tr' = (if now e - last_press_time self > 3 / 10 then posts tr @ [post_of e] else posts tr)"
    using fire_posts [of e self tr] f Cons.prems by simp
  show ?case
    using Cons.IH [OF d, of tr'] f l p by simp
qed

lemma debounce_time_fresh: "debounce_time fresh = 3 / 10"
  by (simp add: fresh_def)

lemma init_fresh: "init gpio tr0 = (Inr self, tr) \<Longrightarrow> self = fresh"
  by (auto simp: init_def fresh_def split: prod.splits option.splits)

subsection \<open>Debounce\<close>

lemma binary_fraction_iff: "binary_fraction k r \<longleftrightarrow> r * 2 ^ k \<in> \<int>"
  unfolding binary_fraction_def by (metis Ints_of_int floor_of_int Ints_cases)

lemma binary_fraction_0: "binary_fraction k 0"
  by (simp add: binary_fraction_def)

lemma three_tenths_off_grid:
  assumes "binary_fraction k a" and "binary_fraction k b"
  shows "a - b \<noteq> 3 / 10"
proof
  assume eq: "a - b = 3 / 10"
  have "(a - b) * 2 ^ k \<in> \<int>"
    using assms by (simp add: binary_fraction_iff left_diff_distrib)
  then obtain m :: int where m: "(3 / 10 :: rat) * 2 ^ k = of_int m"
    unfolding eq by (auto elim: Ints_cases)
  then have "(of_int (3 * 2 ^ k) :: rat) = of_int (10 * m)"
    by simp
  then have "3 * 2 ^ k = 10 * m"
    by (simp only: of_int_eq_iff)
  then have "3 * 2 ^ k = 5 * (2 * m)"
    by simp
  then have "(5 :: int) dvd 3 * 2 ^ k"
    by (simp only: dvd_triv_left)
  moreover have "coprime (5 :: int) (2 ^ k)"
    by (simp add: coprime_power_right_iff)
  ultimately have "(5 :: int) dvd 3"
    by (simp add: coprime_dvd_mult_left_iff)
  then show False by simp
qed


lemma spec_accepted_subset: "set (spec_accepted l es) \<subseteq> set es"
  by (induction es arbitrary: l) auto

lemma last_accepted_grid:
  assumes "binary_fraction k l" and "\<forall>x\<in>set es. binary_fraction k (now x)"
  shows "binary_fraction k (last_accepted l es)"
proof (cases "spec_accepted l es = []")
  case True
  then show ?thesis using assms(1) by (simp add: last_accepted_def)
next
  case False
  then have "last (spec_accepted l es) \<in> set es"
    using spec_accepted_subset [of l es] last_in_set by blast
  then show ?thesis using assms(2) False by (simp add: last_accepted_def)
qed

lemma debounce_strict:
  "run_edges es (fresh, tr0) = (self, tr) \<Longrightarrow>
     last_press_time self = last_accepted 0 es \<and>
     (now e - last_accepted 0 es \<le> 3 / 10 \<longrightarrow> fire e (self, tr) = (None, self, tr)) \<and>
     (now e - last_accepted 0 es > 3 / 10 \<longrightarrow>
        last_press_time (fst (snd (fire e (self, tr)))) = now e \<and>
        posts (snd (snd (fire e (self, tr)))) = posts tr @ [post_of e])"
proof -
  assume r: "run_edges es (fresh, tr0) = (self, tr)"
  have d: "debounce_time self = 3 / 10"
    using run_edges_debounce_time [of es "(fresh, tr0)"] r by (simp add: debounce_time_fresh)
  have l: "last_press_time self = last_accepted 0 es"
    using run_edges_last_accepted [OF debounce_time_fresh, of es tr0] r by (simp add: fresh_def)
  show ?thesis
    using d l by (simp add: fire_suppress fire_last_press_time fire_posts)
qed

text \<open>
  C1. For every sequence of edge callbacks on either channel, starting from the
  controller as initialised, with clock readings that are binary fractions (as the values
  of floating-point numbers are): \<open>last_press_time\<close> is the time of the most
  recently accepted edge (the sentinel 0 when there is none); an edge less than 300 ms
  after it is suppressed, leaving the controller and the trace as they were (no HTTP
  call, \<open>last_press_time\<close> unchanged); an edge at least 300 ms after it is
  accepted, \<open>last_press_time\<close> becomes the edge's time and exactly one POST for the
  edge is added. Two binary fractions are never exactly 3/10 apart, so the strict
  comparison of the callbacks draws the line where the claim does.
\<close>

theorem debounce_window:
  "run_edges es (fresh, tr0) = (self, tr) \<Longrightarrow>
   \<forall>x\<in>set es. binary_fraction k (now x) \<Longrightarrow> binary_fraction k (now e) \<Longrightarrow>
     last_press_time self = last_accepted 0 es \<and>
     (now e - last_accepted 0 es < 3 / 10 \<longrightarrow> fire e (self, tr) = (None, self, tr)) \<and>
     (now e - last_accepted 0 es \<ge> 3 / 10 \<longrightarrow>
        last_press_time (fst (snd (fire e (self, tr)))) = now e \<and>
        posts (snd (snd (fire e (self, tr)))) = posts tr @ [post_of e])"
proof -
  assume r: "run_edges es (fresh, tr0) = (self, tr)"
    and g: "\<forall>x\<in>set es. binary_fraction k (now x)" and ge: "binary_fraction k (now e)"
  have "binary_fraction k (last_accepted 0 es)"
    using binary_fraction_0 g by (rule last_accepted_grid)
  then have ne: "now e - last_accepted 0 es \<noteq> 3 / 10"
    using ge by (intro three_tenths_off_grid)
  show ?thesis
    using debounce_strict [OF r, of e] ne by auto
qed

theorem debounce_window_witness:
  "last_accepted 0 [\<lparr>source = Button_1, now = 1000, stamp = 1000, reply = Response 200\<rparr>] = 1000 \<and>
   binary_fraction 1 1000 \<and> binary_fraction 1 (2001 / 2) \<and>
   (2001 / 2 :: rat) - 1000 \<ge> 3 / 10 \<and>
   posts (snd (snd (fire \<lparr>source = Button_2, now = 2001 / 2, stamp = 2001 / 2, reply = Response 200\<rparr>
     (fresh\<lparr>last_press_time := 1000\<rparr>,
      [Print ''Button 1 pressed - Choose Variant 1'', press_post 1 1000,
       Print ''Button 1 signal sent successfully'']))))
     = [press_post 1 1000, press_post 2 (2001 / 2)]"
proof -
  have r: "run_edges [\<lparr>source = Button_1, now = 1000, stamp = 1000, reply = Response 200\<rparr>] (fresh, []) =
     (fresh\<lparr>last_press_time := 1000\<rparr>,
      [Print ''Button 1 pressed - Choose Variant 1'', press_post 1 1000,
       Print ''Button 1 signal sent successfully''])"
    by (simp add: fire_def button_1_callback_def send_button_press_def press_post_def fresh_def
          Let_def str_int_1)
  have l: "last_accepted 0 [\<lparr>source = Button_1, now = 1000, stamp = 1000, reply = Response 200\<rparr>] = 1000"
    by (simp add: last_accepted_def)
  have g: "\<forall>x\<in>set [\<lparr>source = Button_1, now = 1000, stamp = 1000, reply = Response 200\<rparr>].
      binary_fraction 1 (now x)"
    by (simp add: binary_fraction_def)
  have ge: "binary_fraction 1 (now \<lparr>source = Button_2, now = 2001 / 2, stamp = 2001 / 2, reply = Response 200\<rparr>)"
    by (simp add: binary_fraction_def)
  have b: "binary_fraction 1 1000 \<and> binary_fraction 1 (2001 / 2)"
    by (simp add: binary_fraction_def)
  show ?thesis
    using debounce_window [OF r g ge] l b
    by (simp add: posts_def post_of_def button_id_def press_post_def)
qed

text \<open>
  C3. After any run, when no accepted press is recent (the press on channel 1 comes more
  than 300 ms after \<open>last_press_time\<close>), a press on channel 1 followed less than
  300 ms later by a press on channel 2 adds exactly one POST, and it carries button 1.
\<close>

theorem cross_channel_press:
  "run_edges es (fresh, tr0) = (self, tr) \<Longrightarrow>
   source e1 = Button_1 \<Longrightarrow> source e2 = Button_2 \<Longrightarrow>
   now e1 - last_press_time self > 3 / 10 \<Longrightarrow> now e2 - now e1 < 3 / 10 \<Longrightarrow>
   posts (snd (run_edges [e1, e2] (self, tr))) = posts tr @ [press_post 1 (stamp e1)]"
proof -
  assume r: "run_edges es (fresh, tr0) = (self, tr)"
    and s1: "source e1 = Button_1" and s2: "source e2 = Button_2"
    and a1: "now e1 - last_press_time self > 3 / 10" and a2: "now e2 - now e1 < 3 / 10"
  have d: "debounce_time self = 3 / 10"
    using run_edges_debounce_time [of es "(fresh, tr0)"] r by (simp add: debounce_time_fresh)
  obtain x self' tr' where f: "fire e1 (self, tr) = (x, self', tr')"
    by (cases "fire e1 (self, tr)")
  have l: "last_press_time self' = now e1"
    using fire_last_press_time [of e1 self tr] f d a1 by simp
  have d': "debounce_time self' = 3 / 10"
    using fire_debounce_time [of e1 "(self, tr)"] f d by simp
  have p: "posts tr' = posts tr @ [post_of e1]"
    using fire_posts [of e1 self tr] f d a1 by simp
  have "fire e2 (self', tr') = (None, self', tr')"
    using a2 l d' by (intro fire_suppress) simp
  then show ?thesis
    using f p s1 by (simp add: post_of_def button_id_def)
qed

theorem cross_channel_press_witness:
  "posts (snd (run_edges
      [\<lparr>source = Button_1, now = 1000, stamp = 1000, reply = Response 200\<rparr>,
       \<lparr>source = Button_2, now = 10001 / 10, stamp = 10001 / 10, reply = Response 200\<rparr>]
      (fresh, []))) = [press_post 1 1000]"
proof -
  have r: "run_edges [] (fresh, []) = (fresh, [])" by simp
  show ?thesis
    using cross_channel_press [OF r,
      of "\<lparr>source = Button_1, now = 1000, stamp = 1000, reply = Response 200\<rparr>"
         "\<lparr>source = Button_2, now = 10001 / 10, stamp = 10001 / 10, reply = Response 200\<rparr>"]
    by (simp add: fresh_def posts_def)
qed

text \<open>
  C4 (as amended). From the controller as \<open>__init__\<close> leaves it
  (\<open>last_press_time\<close> at its sentinel 0), an edge callback passes the debounce check
  and emits when its clock reading is more than 0.3 s after the epoch, and is discarded
  otherwise; the time elapsed since the process started plays no part.
\<close>

theorem first_edge_accepted:
  "init gpio tr0 = (Inr self, tr) \<Longrightarrow>
     last_press_time self = 0 \<and>
     (now e > 3 / 10 \<longrightarrow>
        last_press_time (fst (snd (fire e (self, tr)))) = now e \<and>
        posts (snd (snd (fire e (self, tr)))) = posts tr @ [post_of e]) \<and>
     (now e \<le> 3 / 10 \<longrightarrow> fire e (self, tr) = (None, self, tr))"
proof -
  assume i: "init gpio tr0 = (Inr self, tr)"
  have s: "self = fresh" using init_fresh [OF i] .
  show ?thesis
    unfolding s by (simp add: fire_last_press_time fire_posts fire_suppress fresh_def)
qed

theorem first_edge_accepted_witness:
  "fst (init (\<lambda>c. None) []) = Inr fresh \<and>
   (1700000000 :: rat) > 3 / 10 \<and>
   posts (snd (snd (fire \<lparr>source = Button_2, now = 1700000000, stamp = 1700000001, reply = Response 500\<rparr>
      (fresh, snd (init (\<lambda>c. None) []))))) = [press_post 2 1700000001]"
proof -
  have fi: "fst (init (\<lambda>c. None) []) = Inr fresh"
    by (simp add: init_def setup_gpio_def and_then_def gpio_do_def fresh_def)
  have i: "init (\<lambda>c. None) [] = (Inr fresh, snd (init (\<lambda>c. None) []))"
    using fi by (simp add: prod_eq_iff)
  have p: "posts (snd (init (\<lambda>c. None) [])) = []"
    by (simp add: init_def setup_gpio_def and_then_def gpio_do_def posts_def)
  show ?thesis
    using first_edge_accepted [OF i,
      of "\<lparr>source = Button_2, now = 1700000000, stamp = 1700000001, reply = Response 500\<rparr>"] fi p
    by (simp add: post_of_def button_id_def)
qed

text \<open>
  C4 as stated fails for a clock reading within 0.3 s of the epoch: the first edge after
  initialisation, read at 0.2 s, is discarded.
\<close>

theorem first_edge_counterexample:
  "fst (init (\<lambda>c. None) []) = Inr fresh \<and>
   last_press_time fresh = 0 \<and>
   fire \<lparr>source = Button_1, now = 1 / 5, stamp = 1 / 5, reply = Response 200\<rparr>
     (fresh, snd (init (\<lambda>c. None) [])) = (None, fresh, snd (init (\<lambda>c. None) []))"
  by (simp add: init_def setup_gpio_def and_then_def gpio_do_def fresh_def fire_def
        button_1_callback_def)

lemma emits_iff:
  "emits e (self, tr) \<longleftrightarrow> now e - last_press_time self > debounce_time self"
  by (simp add: emits_def fire_posts)

lemma fire_last_mono:
  "0 \<le> debounce_time (fst st) \<Longrightarrow> last_press_time (fst st) \<le> last_press_time (fst (snd (fire e st)))"
  by (cases st) (simp add: fire_last_press_time)

lemma run_edges_last_mono:
  "0 \<le> debounce_time (fst st) \<Longrightarrow> last_press_time (fst st) \<le> last_press_time (fst (run_edges es st))"
proof (induction es arbitrary: st)
  case Nil
  then show ?case by simp
next
  case (Cons e es)
  have d: "0 \<le> debounce_time (fst (snd (fire e st)))"
    using Cons.prems by (simp add: fire_debounce_time)
  have "last_press_time (fst st) \<le> last_press_time (fst (snd (fire e st)))"
    using Cons.prems by (rule fire_last_mono)
  also have "\<dots> \<le> last_press_time (fst (run_edges es (snd (fire e st))))"
    using d by (rule Cons.IH)
  finally show ?case by simp
qed

lemma timestamps_append: "timestamps (xs @ ys) = timestamps xs @ timestamps ys"
  by (simp add: timestamps_def map_filter_def)

lemma timestamps_Print: "timestamps (Print l # xs) = timestamps xs"
  by (simp add: timestamps_def map_filter_def)

lemma timestamps_Nil: "timestamps [] = []"
  by (simp add: timestamps_def map_filter_def)

lemma timestamps_press_post: "timestamps (press_post n ts # xs) = ts # timestamps xs"
  by (simp add: timestamps_def map_filter_def press_post_def)

lemma send_button_press_trace:
  "\<exists>l. snd (send_button_press n ts r tr) = tr @ press_post n ts # l \<and> timestamps l = []"
proof (cases r)
  case (Response code)
  then show ?thesis
    by (simp add: send_button_press_def press_post_def Let_def timestamps_Print timestamps_Nil)
next
  case (Raises x)
  then show ?thesis
    by (cases x)
       (simp_all add: send_button_press_def press_post_def Let_def timestamps_Print timestamps_Nil)
qed

lemma send_button_press_timestamps:
  "timestamps (snd (send_button_press n ts r tr)) = timestamps tr @ [ts]"
proof -
  obtain l where l: "snd (send_button_press n ts r tr) = tr @ press_post n ts # l" "timestamps l = []"
    using send_button_press_trace by blast
  show ?thesis
    unfolding l(1) by (simp add: timestamps_append timestamps_press_post l(2))
qed




text \<open>
  C9 (as amended). In one run, any two edges that emit, on the same channel or on
  different ones, were read at times more than 300 ms apart: the later edge's time
  exceeds the earlier edge's time by more than the debounce window.
\<close>

theorem emitted_edges_spaced:
  "i < j \<Longrightarrow> j < length es \<Longrightarrow>
   emits (es ! i) (run_edges (take i es) (fresh, tr0)) \<Longrightarrow>
   emits (es ! j) (run_edges (take j es) (fresh, tr0)) \<Longrightarrow>
   now (es ! j) - now (es ! i) > 3 / 10"
proof -
  assume ij: "i < j" and j: "j < length es"
    and ei: "emits (es ! i) (run_edges (take i es) (fresh, tr0))"
    and ej: "emits (es ! j) (run_edges (take j es) (fresh, tr0))"
  define si where "si = run_edges (take i es) (fresh, tr0)"
  define si' where "si' = snd (fire (es ! i) si)"
  define sj where "sj = run_edges (take j es) (fresh, tr0)"
  have di: "debounce_time (fst si) = 3 / 10"
    unfolding si_def by (simp add: run_edges_debounce_time debounce_time_fresh)
  have dj: "debounce_time (fst sj) = 3 / 10"
    unfolding sj_def by (simp add: run_edges_debounce_time debounce_time_fresh)
  have di': "debounce_time (fst si') = 3 / 10"
    unfolding si'_def using di by (simp add: fire_debounce_time)
  have ai: "now (es ! i) - last_press_time (fst si) > debounce_time (fst si)"
    using ei emits_iff [of "es ! i" "fst si" "snd si"] by (simp add: si_def)
  have aj: "now (es ! j) - last_press_time (fst sj) > 3 / 10"
    using ej emits_iff [of "es ! j" "fst sj" "snd sj"] dj by (simp add: sj_def)
  have li: "last_press_time (fst si') = now (es ! i)"
    unfolding si'_def using fire_last_press_time [of "es ! i" "fst si" "snd si"] ai by simp
  have split: "take j es = take i es @ es ! i # drop (Suc i) (take j es)"
    using id_take_nth_drop [of i "take j es"] ij j by (simp add: min_def)
  have "sj = run_edges (drop (Suc i) (take j es)) si'"
    unfolding sj_def si'_def si_def by (subst split) (simp add: run_edges_append)
  then have "last_press_time (fst si') \<le> last_press_time (fst sj)"
    using run_edges_last_mono [of si' "drop (Suc i) (take j es)"] di' by simp
  then show ?thesis
    using aj li by simp
qed

theorem emitted_edges_spaced_witness:
  "emits \<lparr>source = Button_1, now = 1000, stamp = 1000, reply = Response 200\<rparr> (fresh, []) \<and>
   emits \<lparr>source = Button_1, now = 1001, stamp = 1001, reply = Response 200\<rparr>
     (run_edges [\<lparr>source = Button_1, now = 1000, stamp = 1000, reply = Response 200\<rparr>] (fresh, [])) \<and>
   (1001 :: rat) - 1000 > 3 / 10"
proof -
  have e0: "emits \<lparr>source = Button_1, now = 1000, stamp = 1000, reply = Response 200\<rparr> (fresh, [])"
    by (simp add: emits_iff fresh_def)
  have e1: "emits \<lparr>source = Button_1, now = 1001, stamp = 1001, reply = Response 200\<rparr>
     (run_edges [\<lparr>source = Button_1, now = 1000, stamp = 1000, reply = Response 200\<rparr>] (fresh, []))"
    by (simp add: emits_def posts_def fire_def button_1_callback_def send_button_press_def fresh_def Let_def)
  show ?thesis
    using e0 e1
      emitted_edges_spaced [of 0 1
        "[\<lparr>source = Button_1, now = 1000, stamp = 1000, reply = Response 200\<rparr>,
          \<lparr>source = Button_1, now = 1001, stamp = 1001, reply = Response 200\<rparr>]" "[]"]
    by simp
qed

text \<open>
  C9 as stated fails: two presses on channel 1, both accepted (their edges are read
  300.05 ms apart), carry body timestamps 1000.0001 and 1000.30006, which are 299.96 ms
  apart, because each timestamp is a clock reading of its own, taken after the edge's.
\<close>

theorem body_timestamps_counterexample:
  "timestamps (snd (run_edges
      [\<lparr>source = Button_1, now = 1000, stamp = 10000001 / 10000, reply = Response 200\<rparr>,
       \<lparr>source = Button_1, now = 100030005 / 100000, stamp = 100030006 / 100000, reply = Response 200\<rparr>]
      (fresh, []))) = [10000001 / 10000, 100030006 / 100000] \<and>
   \<not> (100030006 / 100000 :: rat) - 10000001 / 10000 > 3 / 10"
  by (simp add: fire_def button_1_callback_def fresh_def Let_def send_button_press_timestamps
        timestamps_append timestamps_Print timestamps_Nil)

subsection \<open>Delivery\<close>




lemma check_connection_returns: "fst (check_connection health tr) = None"
  by (simp add: check_connection_def Let_def split: http_outcome.split)

lemma check_connection_cleanups:
  "occurrences (Gpio Cleanup) (snd (check_connection health tr)) = occurrences (Gpio Cleanup) tr"
  by (simp add: check_connection_def Let_def occurrences_def split: http_outcome.split)

lemma check_connection_gets:
  "gets (snd (check_connection health tr)) = gets tr @ [Http_get (FLASK_APP_URL @ ''/health'') 5]"
  by (simp add: check_connection_def Let_def gets_def split: http_outcome.split)

lemma check_connection_case:
  "(case check_connection health tr of (None, tr2) \<Rightarrow> f tr2 | (Some e, tr2) \<Rightarrow> g e tr2) =
     f (snd (check_connection health tr))"
  using check_connection_returns [of health tr] by (cases "check_connection health tr") auto

lemma run_raises:
  assumes "sleep k = Some e" and "\<forall>j<k. sleep j = None"
  shows "run health sleep gpio tr =
     Some (run_handlers gpio e
        (snd (check_connection health
                (tr @ [Print ''Physical button controller started...'',
                       Print (''Connecting to: '' @ FLASK_APP_URL),
                       Print ''Press Ctrl+C to terminate''])) @ replicate (Suc k) (Sleep (1 / 10))))"
proof -
  have i: "idle_loop sleep 0 tr' = Some (e, tr' @ replicate (Suc k) (Sleep (1 / 10)))" for tr'
    using idle_loop_raises [of sleep 0 k e tr'] assms by simp
  show ?thesis
    by (simp add: run_def check_connection_case i del: replicate.simps)
qed

lemma run_forever:
  assumes "\<forall>j. sleep j = None"
  shows "run health sleep gpio tr = None"
proof -
  show ?thesis
    by (simp add: run_def check_connection_case idle_loop_forever [OF assms])
qed

lemma occurrences_append: "occurrences x (xs @ ys) = occurrences x xs + occurrences x ys"
  by (simp add: occurrences_def)

lemma occurrences_replicate_Sleep: "occurrences (Gpio c) (replicate n (Sleep d)) = 0"
  by (simp add: occurrences_def)

lemma gets_append: "gets (xs @ ys) = gets xs @ gets ys"
  by (simp add: gets_def)

lemma gets_replicate_Sleep: "gets (replicate n (Sleep d)) = []"
  by (simp add: gets_def)

lemma gets_run_handlers: "gets (snd (run_handlers gpio e tr)) = gets tr"
  by (simp add: run_handlers_def cleanup_def gpio_do_def gets_def split: option.split)

text \<open>
  C6. When the first sleep of the idle loop that is interrupted is interrupted by
  \<open>KeyboardInterrupt\<close>, \<open>run\<close> returns: it leaves the loop, prints the shutdown
  line and calls the GPIO cleanup, as the last thing it does and exactly once.
\<close>

theorem interrupt_runs_cleanup:
  "sleep k = Some KeyboardInterrupt \<Longrightarrow> \<forall>j<k. sleep j = None \<Longrightarrow>
   run health sleep gpio tr =
     Some (gpio Cleanup,
           snd (check_connection health
                  (tr @ [Print ''Physical button controller started...'',
                         Print (''Connecting to: '' @ FLASK_APP_URL),
                         Print ''Press Ctrl+C to terminate''])) @
           replicate (Suc k) (Sleep (1 / 10)) @
           [Print (CHR 0x0A # ''Shutting down...''), Gpio Cleanup]) \<and>
   occurrences (Gpio Cleanup) (snd (the (run health sleep gpio tr))) =
     Suc (occurrences (Gpio Cleanup) tr)"
proof -
  assume k: "sleep k = Some KeyboardInterrupt" and b: "\<forall>j<k. sleep j = None"
  have r: "run health sleep gpio tr =
     Some (gpio Cleanup,
           snd (check_connection health
                  (tr @ [Print ''Physical button controller started...'',
                         Print (''Connecting to: '' @ FLASK_APP_URL),
                         Print ''Press Ctrl+C to terminate''])) @
           replicate (Suc k) (Sleep (1 / 10)) @
           [Print (CHR 0x0A # ''Shutting down...''), Gpio Cleanup])"
    unfolding run_raises [OF k b]
    by (simp add: run_handlers_def cleanup_def gpio_do_def del: replicate.simps)
  show ?thesis
    unfolding r
    by (simp add: occurrences_append check_connection_cleanups occurrences_replicate_Sleep
          del: replicate.simps)
       (simp add: occurrences_def)
qed

theorem interrupt_runs_cleanup_witness:
  "(\<lambda>i. if i = 2 then Some KeyboardInterrupt else None) (2 :: nat) = Some KeyboardInterrupt \<and>
   (\<lambda>i. if i = 2 then Some KeyboardInterrupt else None) (0 :: nat) = None \<and>
   (\<lambda>i. if i = 2 then Some KeyboardInterrupt else None) (1 :: nat) = None \<and>
   run (Response 200) (\<lambda>i. if i = 2 then Some KeyboardInterrupt else None) (\<lambda>c. None) [] =
     Some (None,
       [Print ''Physical button controller started...'',
        Print (''Connecting to: '' @ FLASK_APP_URL),
        Print ''Press Ctrl+C to terminate'',
        Http_get (FLASK_APP_URL @ ''/health'') 5,
        Print (check_mark @ '' Connection with Flask app established''),
        Sleep (1 / 10), Sleep (1 / 10), Sleep (1 / 10),
        Print (CHR 0x0A # ''Shutting down...''), Gpio Cleanup])"
proof -
  have k: "(\<lambda>i. if i = 2 then Some KeyboardInterrupt else None) (2 :: nat) = Some KeyboardInterrupt"
    by simp
  have b: "\<forall>j<2. (\<lambda>i :: nat. if i = 2 then Some KeyboardInterrupt else None) j = None"
    by simp
  show ?thesis
    using interrupt_runs_cleanup [OF k b, of "Response 200" "\<lambda>c. None" "[]"]
    by (simp add: check_connection_def Let_def numeral_2_eq_2)
qed

subsection \<open>Health check\<close>

text \<open>
  C7. \<open>check_connection\<close> issues one GET to the base URL followed by
  \<open>/health\<close> with timeout 5 and logs one of three outcomes: status 200 (healthy),
  any other status (reachable, with issues), any exception (unreachable); it never
  raises. \<open>run\<close> calls it once, before the first sleep of the idle loop, and enters
  the loop whatever the outcome: when the \<open>k\<close>-th sleep is the first that raises,
  the trace of \<open>run\<close> is the banner, the health check, \<open>k + 1\<close> sleeps and the
  handlers, with exactly one GET more than before; when no sleep raises, \<open>run\<close>
  stays in the loop and does not return.
\<close>

theorem health_check_once:
  "check_connection (Response 200) tr =
     (None, tr @ [Http_get (FLASK_APP_URL @ ''/health'') 5,
                  Print (check_mark @ '' Connection with Flask app established'')]) \<and>
   (code \<noteq> 200 \<longrightarrow>
      check_connection (Response code) tr =
        (None, tr @ [Http_get (FLASK_APP_URL @ ''/health'') 5,
                     Print (warning_sign @ '' Flask app reachable but with issues'')])) \<and>
   check_connection (Raises x) tr =
     (None, tr @ [Http_get (FLASK_APP_URL @ ''/health'') 5,
                  Print (ballot_x @ '' Unable to connect to Flask app''),
                  Print (''Verify that the app is running on '' @ FLASK_APP_URL)]) \<and>
   (sleep k = Some e \<and> (\<forall>j<k. sleep j = None) \<longrightarrow>
      run health sleep gpio tr =
        Some (run_handlers gpio e
          (snd (check_connection health
                  (tr @ [Print ''Physical button controller started...'',
                         Print (''Connecting to: '' @ FLASK_APP_URL),
                         Print ''Press Ctrl+C to terminate''])) @
           replicate (Suc k) (Sleep (1 / 10)))) \<and>
      gets (snd (the (run health sleep gpio tr))) =
        gets tr @ [Http_get (FLASK_APP_URL @ ''/health'') 5]) \<and>
   ((\<forall>j. sleep j = None) \<longrightarrow> run health sleep gpio tr = None)"
proof -
  have c: "check_connection (Response 200) tr =
     (None, tr @ [Http_get (FLASK_APP_URL @ ''/health'') 5,
                  Print (check_mark @ '' Connection with Flask app established'')]) \<and>
   (code \<noteq> 200 \<longrightarrow>
      check_connection (Response code) tr =
        (None, tr @ [Http_get (FLASK_APP_URL @ ''/health'') 5,
                     Print (warning_sign @ '' Flask app reachable but with issues'')])) \<and>
   check_connection (Raises x) tr =
     (None, tr @ [Http_get (FLASK_APP_URL @ ''/health'') 5,
                  Print (ballot_x @ '' Unable to connect to Flask app''),
                  Print (''Verify that the app is running on '' @ FLASK_APP_URL)])"
    by (simp add: check_connection_def Let_def)
  have r: "run health sleep gpio tr =
        Some (run_handlers gpio e
          (snd (check_connection health
                  (tr @ [Print ''Physical button controller started...'',
                         Print (''Connecting to: '' @ FLASK_APP_URL),
                         Print ''Press Ctrl+C to terminate''])) @
           replicate (Suc k) (Sleep (1 / 10)))) \<and>
      gets (snd (the (run health sleep gpio tr))) =
        gets tr @ [Http_get (FLASK_APP_URL @ ''/health'') 5]"
    if k: "sleep k = Some e" and b: "\<forall>j<k. sleep j = None"
    unfolding run_raises [OF k b]
    by (simp add: gets_run_handlers gets_append check_connection_gets gets_replicate_Sleep
          del: replicate.simps)
       (simp add: gets_def)
  have f: "run health sleep gpio tr = None" if "\<forall>j. sleep j = None"
    using that by (rule run_forever)
  show ?thesis
    using c r f by blast
qed

theorem health_check_once_witness:
  "(503 :: int) \<noteq> 200 \<and>
   check_connection (Response 503) [] =
     (None, [Http_get (FLASK_APP_URL @ ''/health'') 5,
             Print (warning_sign @ '' Flask app reachable but with issues'')]) \<and>
   run (Response 503) (\<lambda>i. if i = 1 then Some KeyboardInterrupt else None) (\<lambda>c. None) [] =
     Some (None,
       [Print ''Physical button controller started...'',
        Print (''Connecting to: '' @ FLASK_APP_URL),
        Print ''Press Ctrl+C to terminate'',
        Http_get (FLASK_APP_URL @ ''/health'') 5,
        Print (warning_sign @ '' Flask app reachable but with issues''),
        Sleep (1 / 10), Sleep (1 / 10),
        Print (CHR 0x0A # ''Shutting down...''), Gpio Cleanup]) \<and>
   run (Response 503) (\<lambda>i. None) (\<lambda>c. None) [] = None"
proof -
  have a: "run (Response 503) (\<lambda>i. None) (\<lambda>c. None) [] = None"
    using health_check_once [where sleep = "\<lambda>i. None" and health = "Response 503"
        and gpio = "\<lambda>c. None" and tr = "[]"]
    by simp
  show ?thesis
    using a health_check_once [where code = 503 and health = "Response 503" and tr = "[]"
        and sleep = "\<lambda>i. if i = 1 then Some KeyboardInterrupt else None" and k = 1
        and e = KeyboardInterrupt and gpio = "\<lambda>c. None"]
    by (simp add: check_connection_def Let_def run_handlers_def cleanup_def gpio_do_def)
qed

text \<open>
  C10. The handler of \<open>check_connection\<close> is a bare \<open>except:\<close>: whatever
  exception the GET raises, \<open>KeyboardInterrupt\<close> included, \<open>check_connection\<close>
  logs the two lines of the unreachable case and returns normally, and \<open>run\<close> goes
  on into the idle loop: it sleeps until a sleep raises, and does not return when none
  does.
\<close>

theorem health_check_swallows_interrupt:
  "fst (check_connection (Raises x) tr) = None \<and>
   snd (check_connection (Raises KeyboardInterrupt) tr) =
     tr @ [Http_get (FLASK_APP_URL @ ''/health'') 5,
           Print (ballot_x @ '' Unable to connect to Flask app''),
           Print (''Verify that the app is running on '' @ FLASK_APP_URL)] \<and>
   snd (check_connection (Raises x) tr) = snd (check_connection (Raises KeyboardInterrupt) tr) \<and>
   (sleep k = Some e \<and> (\<forall>j<k. sleep j = None) \<longrightarrow>
      run (Raises x) sleep gpio tr =
        Some (run_handlers gpio e
          (tr @ [Print ''Physical button controller started...'',
                 Print (''Connecting to: '' @ FLASK_APP_URL),
                 Print ''Press Ctrl+C to terminate'',
                 Http_get (FLASK_APP_URL @ ''/health'') 5,
                 Print (ballot_x @ '' Unable to connect to Flask app''),
                 Print (''Verify that the app is running on '' @ FLASK_APP_URL)] @
           replicate (Suc k) (Sleep (1 / 10))))) \<and>
   ((\<forall>j. sleep j = None) \<longrightarrow> run (Raises x) sleep gpio tr = None)"
proof -
  have c: "check_connection (Raises y) tr' =
     (None, tr' @ [Http_get (FLASK_APP_URL @ ''/health'') 5,
           Print (ballot_x @ '' Unable to connect to Flask app''),
           Print (''Verify that the app is running on '' @ FLASK_APP_URL)])" for y tr'
    by (simp add: check_connection_def Let_def)
  have r: "run (Raises x) sleep gpio tr =
        Some (run_handlers gpio e
          (tr @ [Print ''Physical button controller started...'',
                 Print (''Connecting to: '' @ FLASK_APP_URL),
                 Print ''Press Ctrl+C to terminate'',
                 Http_get (FLASK_APP_URL @ ''/health'') 5,
                 Print (ballot_x @ '' Unable to connect to Flask app''),
                 Print (''Verify that the app is running on '' @ FLASK_APP_URL)] @
           replicate (Suc k) (Sleep (1 / 10))))"
    if k: "sleep k = Some e" and b: "\<forall>j<k. sleep j = None"
    unfolding run_raises [OF k b] c by simp
  have f: "run (Raises x) sleep gpio tr = None" if "\<forall>j. sleep j = None"
    using that by (rule run_forever)
  show ?thesis
    using r f by (simp add: c)
qed

theorem health_check_swallows_interrupt_witness:
  "check_connection (Raises KeyboardInterrupt) [] =
     (None, [Http_get (FLASK_APP_URL @ ''/health'') 5,
             Print (ballot_x @ '' Unable to connect to Flask app''),
             Print (''Verify that the app is running on '' @ FLASK_APP_URL)]) \<and>
   run (Raises KeyboardInterrupt) (\<lambda>i. if i = 1 then Some KeyboardInterrupt else None)
       (\<lambda>c. None) [] =
     Some (None,
       [Print ''Physical button controller started...'',
        Print (''Connecting to: '' @ FLASK_APP_URL),
        Print ''Press Ctrl+C to terminate'',
        Http_get (FLASK_APP_URL @ ''/health'') 5,
        Print (ballot_x @ '' Unable to connect to Flask app''),
        Print (''Verify that the app is running on '' @ FLASK_APP_URL),
        Sleep (1 / 10), Sleep (1 / 10),
        Print (CHR 0x0A # ''Shutting down...''), Gpio Cleanup]) \<and>
   run (Raises KeyboardInterrupt) (\<lambda>i. None) (\<lambda>c. None) [] = None"
proof -
  have a: "run (Raises KeyboardInterrupt) (\<lambda>i. None) (\<lambda>c. None) [] = None"
    using health_check_swallows_interrupt [where sleep = "\<lambda>i. None" and x = KeyboardInterrupt
        and gpio = "\<lambda>c. None" and tr = "[]"]
    by simp
  show ?thesis
    using a health_check_swallows_interrupt [where x = KeyboardInterrupt and tr = "[]"
        and sleep = "\<lambda>i. if i = 1 then Some KeyboardInterrupt else None" and k = 1
        and e = KeyboardInterrupt and gpio = "\<lambda>c. None"]
    by (simp add: prod_eq_iff run_handlers_def cleanup_def gpio_do_def)
qed

subsection \<open>Setup failure\<close>

lemma setup_gpio_fails:
  "c \<in> set setup_calls \<Longrightarrow> gpio c \<noteq> None \<Longrightarrow>
   \<exists>e tr'. setup_gpio gpio tr = (Some e, tr @ map Gpio tr') \<and> set tr' \<subseteq> set setup_calls \<and>
     tr' \<noteq> [] \<and> gpio (last tr') = Some e"
proof -
  assume c: "c \<in> set setup_calls" and g: "gpio c \<noteq> None"
  let ?P = "\<lambda>tr'. set tr' \<subseteq> set setup_calls \<and> tr' \<noteq> [] \<and> gpio (last tr') = fst (setup_gpio gpio tr) \<and>
      fst (setup_gpio gpio tr) \<noteq> None \<and> snd (setup_gpio gpio tr) = tr @ map Gpio tr'"
  have "\<exists>tr'. ?P tr'"
  proof (cases "gpio Setmode_BCM")
    case (Some e)
    then have "?P [Setmode_BCM]"
      by (simp add: setup_gpio_def and_then_def gpio_do_def setup_calls_def)
    then show ?thesis by blast
  next
    case n1: None
    show ?thesis
    proof (cases "gpio (Setwarnings False)")
      case (Some e)
      then have "?P [Setmode_BCM, Setwarnings False]"
        using n1 by (simp add: setup_gpio_def and_then_def gpio_do_def setup_calls_def)
      then show ?thesis by blast
    next
      case n2: None
      show ?thesis
      proof (cases "gpio (Setup_IN_PUD_DOWN BUTTON_1_PIN)")
        case (Some e)
        then have "?P [Setmode_BCM, Setwarnings False, Setup_IN_PUD_DOWN BUTTON_1_PIN]"
          using n1 n2 by (simp add: setup_gpio_def and_then_def gpio_do_def setup_calls_def)
        then show ?thesis by blast
      next
        case n3: None
        show ?thesis
        proof (cases "gpio (Setup_IN_PUD_DOWN BUTTON_2_PIN)")
          case (Some e)
          then have "?P [Setmode_BCM, Setwarnings False, Setup_IN_PUD_DOWN BUTTON_1_PIN,
              Setup_IN_PUD_DOWN BUTTON_2_PIN]"
            using n1 n2 n3 by (simp add: setup_gpio_def and_then_def gpio_do_def setup_calls_def)
          then show ?thesis by blast
        next
          case n4: None
          show ?thesis
          proof (cases "gpio (Add_event_detect_RISING BUTTON_1_PIN 1 300)")
            case (Some e)
            then have "?P [Setmode_BCM, Setwarnings False, Setup_IN_PUD_DOWN BUTTON_1_PIN,
                Setup_IN_PUD_DOWN BUTTON_2_PIN, Add_event_detect_RISING BUTTON_1_PIN 1 300]"
              using n1 n2 n3 n4
              by (simp add: setup_gpio_def and_then_def gpio_do_def setup_calls_def)
            then show ?thesis by blast
          next
            case n5: None
            have "gpio (Add_event_detect_RISING BUTTON_2_PIN 2 300) \<noteq> None"
              using c g n1 n2 n3 n4 n5 by (auto simp: setup_calls_def)
            then have "?P setup_calls"
              using n1 n2 n3 n4 n5
              by (auto simp: setup_gpio_def and_then_def gpio_do_def setup_calls_def)
            then show ?thesis by blast
          qed
        qed
      qed
    qed
  qed
  then obtain tr' where p: "?P tr'" by blast
  then obtain e where e: "fst (setup_gpio gpio tr) = Some e" by auto
  have "setup_gpio gpio tr = (Some e, tr @ map Gpio tr')"
    using p e by (simp add: prod_eq_iff)
  then show ?thesis using p e by auto
qed

lemma Cleanup_not_setup: "Cleanup \<notin> set setup_calls"
  by (simp add: setup_calls_def)

text \<open>
  C8 (as amended). When one of the GPIO calls of \<open>setup_gpio\<close> raises, the exception
  leaves \<open>__init__\<close> and the program ends with it before \<open>run\<close> starts: the
  program has made only GPIO setup calls, up to the one that raised, and no sleep, no
  GET and no banner. On this path the GPIO cleanup is not called.
\<close>

theorem setup_failure_is_fatal:
  "c \<in> set setup_calls \<Longrightarrow> gpio c \<noteq> None \<Longrightarrow>
   \<exists>e tr'. main gpio health sleep tr = Some (Some e, tr @ map Gpio tr') \<and>
     set tr' \<subseteq> set setup_calls \<and> tr' \<noteq> [] \<and> gpio (last tr') = Some e \<and>
     occurrences (Gpio Cleanup) (tr @ map Gpio tr') = occurrences (Gpio Cleanup) tr"
proof -
  assume c: "c \<in> set setup_calls" and g: "gpio c \<noteq> None"
  obtain e tr' where s: "setup_gpio gpio tr = (Some e, tr @ map Gpio tr')"
    and sub: "set tr' \<subseteq> set setup_calls" and ne: "tr' \<noteq> []" and l: "gpio (last tr') = Some e"
    using setup_gpio_fails [where c = c and gpio = gpio, OF c g] by blast
  have m: "main gpio health sleep tr = Some (Some e, tr @ map Gpio tr')"
    by (simp add: main_def init_def s)
  have "Cleanup \<notin> set tr'"
    using sub Cleanup_not_setup by blast
  then have "filter (\<lambda>y. y = Gpio Cleanup) (map Gpio tr') = []"
    by (auto simp: filter_empty_conv)
  then have o: "occurrences (Gpio Cleanup) (tr @ map Gpio tr') = occurrences (Gpio Cleanup) tr"
    by (simp add: occurrences_def)
  show ?thesis
    using m sub ne l o by blast
qed

theorem setup_failure_is_fatal_witness:
  "Setup_IN_PUD_DOWN 19 \<in> set setup_calls \<and>
   (\<exists>e tr'. main (\<lambda>c. if c = Setup_IN_PUD_DOWN 19 then Some (OtherException ''RuntimeError'') else None)
               (Response 200) (\<lambda>i. Some KeyboardInterrupt) [] = Some (Some e, map Gpio tr') \<and>
             occurrences (Gpio Cleanup) (map Gpio tr') = 0)"
proof -
  have c: "Setup_IN_PUD_DOWN 19 \<in> set setup_calls"
    by (simp add: setup_calls_def BUTTON_2_PIN_def)
  have g: "(\<lambda>c. if c = Setup_IN_PUD_DOWN 19 then Some (OtherException ''RuntimeError'') else None)
      (Setup_IN_PUD_DOWN 19) \<noteq> None"
    by simp
  show ?thesis
    using c setup_failure_is_fatal [where c = "Setup_IN_PUD_DOWN 19"
        and gpio = "\<lambda>c. if c = Setup_IN_PUD_DOWN 19 then Some (OtherException ''RuntimeError'') else None"
        and health = "Response 200" and sleep = "\<lambda>i. Some KeyboardInterrupt" and tr = "[]", OF c g]
    by (auto simp: occurrences_def)
qed

text \<open>
  C8 as stated fails in its last part: when configuring pin 18 raises, the program ends
  with that exception after three GPIO calls, none of which is the cleanup.
\<close>

theorem setup_failure_counterexample:
  "main (\<lambda>c. if c = Setup_IN_PUD_DOWN 18 then Some (OtherException ''RuntimeError'') else None)
     (Response 200) (\<lambda>i. Some KeyboardInterrupt) [] =
     Some (Some (OtherException ''RuntimeError''),
           [Gpio Setmode_BCM, Gpio (Setwarnings False), Gpio (Setup_IN_PUD_DOWN 18)]) \<and>
   occurrences (Gpio Cleanup)
     [Gpio Setmode_BCM, Gpio (Setwarnings False), Gpio (Setup_IN_PUD_DOWN 18)] = 0"
  by (simp add: main_def init_def setup_gpio_def and_then_def gpio_do_def BUTTON_1_PIN_def
        occurrences_def)

end
